theory Spec2Isabelle
  imports Main "HOL-Library.Word"
begin

section \<open>Python values, types and exceptions\<close>

text \<open>
  The two modules verified here, \<^verbatim>\<open>pymls/layers/layer.py\<close> and
  \<^verbatim>\<open>pypw/interface/utils.py\<close>, handle Python values only through attribute
  reads and writes, through \<^verbatim>\<open>type(x) == t\<close> and through string comparison.
  A value is therefore modelled by its runtime type and its content. A float is kept as
  its IEEE-754 binary64 bit pattern, so that equality of two modelled floats is
  bit-for-bit equality.
\<close>

datatype pytype = TInt | TFloat | TComplex | TStr | TBool | TNoneType

datatype pyval =
    PyInt int
  | PyFloat "64 word"
  | PyComplex "64 word" "64 word"
  | PyStr string
  | PyBool bool
  | PyNone

text \<open>\<^verbatim>\<open>type(v)\<close>: the exact runtime type (a bool is not an int here).\<close>

fun type_of :: "pyval \<Rightarrow> pytype" where
  "type_of (PyInt _) = TInt"
| "type_of (PyFloat _) = TFloat"
| "type_of (PyComplex _ _) = TComplex"
| "type_of (PyStr _) = TStr"
| "type_of (PyBool _) = TBool"
| "type_of PyNone = TNoneType"

text \<open>How an f-string prints a type object: \<^verbatim>\<open>f'{float}'\<close> is \<^verbatim>\<open><class 'float'>\<close>.\<close>

fun type_name :: "pytype \<Rightarrow> string" where
  "type_name TInt = ''int''"
| "type_name TFloat = ''float''"
| "type_name TComplex = ''complex''"
| "type_name TStr = ''str''"
| "type_name TBool = ''bool''"
| "type_name TNoneType = ''NoneType''"

definition class_repr :: "pytype \<Rightarrow> string" where
  "class_repr t = ''<class '' @ [CHR 0x27] @ type_name t @ [CHR 0x27] @ ''>''"

text \<open>
  The exceptions the two modules raise or let through, each with its message.
  \<open>SampleError\<close> stands for whatever the caller's sample source raises.
\<close>

datatype pyerror =
    ValueError string
  | TypeError string
  | AttributeError string
  | KeyError string
  | NotImplementedError
  | SampleError string

section \<open>Media\<close>

text \<open>
  Modelled from the spec: the \<^verbatim>\<open>Medium\<close> classes (package \<^verbatim>\<open>media\<close>) are not
  among the sources at hand. The code below reads of a medium its model tag
  \<^verbatim>\<open>MODEL\<close>, its two parameter schemas \<^verbatim>\<open>EXPECTED_PARAMS\<close> and
  \<^verbatim>\<open>OPT_PARAMS\<close> (lists of pairs of a parameter name and its expected type) and its
  attributes, among them \<^verbatim>\<open>omega\<close>, the angular frequency the cached derived
  quantities were computed at (\<open>-1\<close> marks them stale).

  What is passed as a medium need not be an instance: \<^verbatim>\<open>test/solver.py\<close> builds its
  layers from \<^verbatim>\<open>Air\<close> as imported, with no call that would instantiate it.
  \<^verbatim>\<open>copy.deepcopy\<close> tells three kinds of object apart, and the field \<open>kind\<close> records
  which one a medium is: an object it treats as atomic and returns as it is (a class
  object above all), an instance, of which it builds a copy, and an object on which it
  raises (one that holds a lock or a generator, say), kept with the exception raised.
  The attribute values of this model are immutable, so nothing below a medium object can
  be shared between a medium and its copy.
\<close>

datatype object_kind = Atomic | Instance | Uncopyable pyerror

record medium =
  kind :: object_kind
  MODEL :: string
  EXPECTED_PARAMS :: "(string \<times> pytype) list"
  OPT_PARAMS :: "(string \<times> pytype) list"
  attrs :: "string \<rightharpoonup> pyval"

section \<open>The interface resolver (\<^verbatim>\<open>pypw/interface/utils.py\<close>)\<close>

text \<open>
  Modelled from the spec: the three coupling procedures that \<^verbatim>\<open>utils.py\<close> imports
  from \<^verbatim>\<open>.interfaces\<close> (a module that is not among the sources at hand). The spec
  describes them as three different procedures; each constructor is the name under which
  \<^verbatim>\<open>generic_interface\<close> returns one of them.
\<close>

datatype interface = fluid_elastic_interface | elastic_fluid_interface | fluid_pem_interface

text \<open>
  \<^verbatim>\<open>generic_interface(medium_right, medium_left)\<close> is three \<^verbatim>\<open>if\<close> blocks in a row.
  A block whose inner tests all fail falls through to the next block, and the end of the
  function returns \<^verbatim>\<open>None\<close>. Each block is modelled by a function that yields
  \<open>Some\<close> of the outcome when the block returns or raises and \<open>None\<close> when control falls
  through. An outcome is \<open>Inl\<close> of the exception raised or \<open>Inr\<close> of the value returned,
  where \<open>Inr None\<close> is Python's \<^verbatim>\<open>None\<close>.
\<close>

type_synonym outcome = "pyerror + interface option"

definition fluid_block :: "medium \<Rightarrow> medium \<Rightarrow> outcome option" where
  "fluid_block medium_right medium_left =
     (if MODEL medium_right = ''fluid'' then
        (if MODEL medium_left = ''fluid'' then Some (Inr None)
         else if MODEL medium_left = ''elastic'' then Some (Inr (Some elastic_fluid_interface))
         else if MODEL medium_left = ''pem'' then Some (Inr (Some fluid_pem_interface))
         else None)
      else None)"

definition elastic_block :: "medium \<Rightarrow> medium \<Rightarrow> outcome option" where
  "elastic_block medium_right medium_left =
     (if MODEL medium_right = ''elastic'' then
        (if MODEL medium_left = ''fluid'' then Some (Inr (Some fluid_elastic_interface))
         else if MODEL medium_left = ''elastic'' then Some (Inr None)
         else if MODEL medium_left = ''pem'' then Some (Inl NotImplementedError)
         else None)
      else None)"

definition pem_block :: "medium \<Rightarrow> medium \<Rightarrow> outcome option" where
  "pem_block medium_right medium_left =
     (if MODEL medium_right = ''pem'' then Some (Inl NotImplementedError) else None)"

definition generic_interface :: "medium \<Rightarrow> medium \<Rightarrow> outcome" where
  "generic_interface medium_right medium_left =
     (case fluid_block medium_right medium_left of
        Some r \<Rightarrow> r
      | None \<Rightarrow>
          (case elastic_block medium_right medium_left of
             Some r \<Rightarrow> r
           | None \<Rightarrow>
               (case pem_block medium_right medium_left of
                  Some r \<Rightarrow> r
                | None \<Rightarrow> Inr None)))"

text \<open>
  The unsupported pairings of the spec's policy table (section 4.3), written from the
  table's words with the code's tag \<^verbatim>\<open>pem\<close> for the poroelastic model: elastic above
  poroelastic, poroelastic above fluid, poroelastic above elastic. The table gives
  poroelastic above poroelastic as the no-op case.
\<close>

definition policy_unsupported :: "string \<Rightarrow> string \<Rightarrow> bool" where
  "policy_unsupported upper lower =
     ((upper = ''elastic'' \<and> lower = ''pem'') \<or>
      (upper = ''pem'' \<and> lower = ''fluid'') \<or>
      (upper = ''pem'' \<and> lower = ''elastic''))"

text \<open>
  Media of the three models and of a model the resolver does not know, each an instance.
  The fluid is air: \<^verbatim>\<open>rho = 1.213\<close>, \<^verbatim>\<open>c = 343.0\<close>, derived state stale.
  \<open>sample_class\<close> is the same medium given as a class object.
\<close>

definition sample_fluid :: medium where
  "sample_fluid =
     \<lparr>kind = Instance, MODEL = ''fluid'',
      EXPECTED_PARAMS = [(''rho'', TFloat), (''c'', TFloat)],
      OPT_PARAMS = [],
      attrs = [''rho'' \<mapsto> PyFloat 0x3FF36872B020C49C, ''c'' \<mapsto> PyFloat 0x4075700000000000,
               ''omega'' \<mapsto> PyInt (- 1), ''name'' \<mapsto> PyStr ''Air'']\<rparr>"

definition sample_class :: medium where
  "sample_class = sample_fluid\<lparr>kind := Atomic\<rparr>"

definition sample_elastic :: medium where
  "sample_elastic =
     \<lparr>kind = Instance, MODEL = ''elastic'',
      EXPECTED_PARAMS = [(''E'', TFloat), (''nu'', TFloat), (''rho'', TFloat), (''eta'', TFloat)],
      OPT_PARAMS = [],
      attrs = [''E'' \<mapsto> PyFloat 0x4202A05F20000000, ''nu'' \<mapsto> PyFloat 0x3FD3333333333333,
               ''rho'' \<mapsto> PyFloat 0x4082C00000000000, ''eta'' \<mapsto> PyFloat 0x3F947AE147AE147B,
               ''omega'' \<mapsto> PyInt (- 1), ''name'' \<mapsto> PyStr ''wood'']\<rparr>"

definition sample_pem :: medium where
  "sample_pem =
     \<lparr>kind = Instance, MODEL = ''pem'',
      EXPECTED_PARAMS = [(''phi'', TFloat), (''sigma'', TFloat), (''alpha'', TFloat)],
      OPT_PARAMS = [(''loss_type'', TStr)],
      attrs = [''phi'' \<mapsto> PyFloat 0x3FEF5C28F5C28F5C, ''sigma'' \<mapsto> PyFloat 0x40C3880000000000,
               ''alpha'' \<mapsto> PyFloat 0x3FF0000000000000, ''loss_type'' \<mapsto> PyStr ''structural'',
               ''omega'' \<mapsto> PyInt (- 1), ''name'' \<mapsto> PyStr ''foam'']\<rparr>"

definition sample_generic :: medium where
  "sample_generic =
     \<lparr>kind = Instance, MODEL = ''generic'', EXPECTED_PARAMS = [], OPT_PARAMS = [],
      attrs = [''omega'' \<mapsto> PyInt (- 1), ''name'' \<mapsto> PyNone]\<rparr>"

section \<open>The store of media\<close>

text \<open>
  A layer keeps a reference to its medium, and the medium is mutated in place. Media
  therefore live in a store: an address is an index into the list of all medium objects
  allocated so far, and a new object is appended at the end. The attribute map of a
  medium holds what \<^verbatim>\<open>getattr\<close> and \<^verbatim>\<open>setattr\<close> see on it. A Python
  reference always points to an object: a property that needs the address \<open>a\<close> to be
  allocated in the store \<open>h\<close> assumes \<open>a < length h\<close>.
\<close>

type_synonym addr = nat
type_synonym heap = "medium list"

definition getattr :: "heap \<Rightarrow> addr \<Rightarrow> string \<Rightarrow> pyerror + pyval" where
  "getattr h a k = (case attrs (h ! a) k of None \<Rightarrow> Inl (AttributeError k) | Some v \<Rightarrow> Inr v)"

definition setattr :: "heap \<Rightarrow> addr \<Rightarrow> string \<Rightarrow> pyval \<Rightarrow> heap" where
  "setattr h a k v = h[a := (h ! a)\<lparr>attrs := (attrs (h ! a))(k \<mapsto> v)\<rparr>]"

text \<open>
  \<^verbatim>\<open>copy.deepcopy(medium)\<close>: an atomic object is returned as it is and nothing is
  allocated; of an instance a new object with the same contents is allocated; on an
  object that cannot be copied the call raises.
\<close>

definition deepcopy :: "heap \<Rightarrow> addr \<Rightarrow> (pyerror + addr) \<times> heap" where
  "deepcopy h a =
     (case kind (h ! a) of
        Atomic \<Rightarrow> (Inr a, h)
      | Instance \<Rightarrow> (Inr (length h), h @ [h ! a])
      | Uncopyable e \<Rightarrow> (Inl e, h))"

text \<open>\<^verbatim>\<open>dict(pairs)\<close>: of two pairs with the same key the later one wins.\<close>

definition dict_of :: "('k \<times> 'v) list \<Rightarrow> 'k \<rightharpoonup> 'v" where
  "dict_of pairs = map_of (rev pairs)"

section \<open>Layers (\<^verbatim>\<open>pymls/layers/layer.py\<close>)\<close>

record layer =
  thickness :: pyval
  medium :: addr
  name :: string

text \<open>
  The method that the constructor of a stochastic layer binds to \<^verbatim>\<open>new_draw\<close>.
\<close>

datatype bound_method = Bound_draw_thickness | Bound_draw_medium_parameter

text \<open>
  The field \<^verbatim>\<open>pdf\<close>, the caller's sample source, is not stored: every draw takes
  the outcome of its one call \<^verbatim>\<open>self.pdf()\<close> as an argument, \<open>Inr\<close> of the sample or
  \<open>Inl\<close> of the exception the source raised. \<open>medium_params\<close> is the private dictionary
  \<^verbatim>\<open>__medium_params\<close>.
\<close>

record stochastic_layer = layer +
  stochastic_param :: string
  medium_params :: "string \<rightharpoonup> pytype"
  new_draw :: bound_method
  initial_param_value :: pyval

text \<open>
  A constructor or method takes the store and yields its outcome together with the store
  it leaves behind, also when it raises.
\<close>

definition Layer_init :: "heap \<Rightarrow> addr \<Rightarrow> pyval \<Rightarrow> string \<Rightarrow> (pyerror + layer) \<times> heap" where
  "Layer_init h m t nm =
     (case deepcopy h m of
        (Inl e, h') \<Rightarrow> (Inl e, h')
      | (Inr a, h') \<Rightarrow> (Inr \<lparr>thickness = t, medium = a, name = nm\<rparr>, h'))"

definition StochasticLayer_init ::
  "heap \<Rightarrow> addr \<Rightarrow> pyval \<Rightarrow> string \<Rightarrow> string \<Rightarrow> (pyerror + stochastic_layer) \<times> heap" where
  "StochasticLayer_init h m t param nm =
     (case Layer_init h m t nm of
        (Inl e, h1) \<Rightarrow> (Inl e, h1)
      | (Inr base, h1) \<Rightarrow>
          (let params = dict_of (EXPECTED_PARAMS (h1 ! medium base) @ OPT_PARAMS (h1 ! medium base))
           in if param = ''thickness'' then
                (Inr \<lparr>thickness = thickness base, medium = medium base, name = name base,
                      stochastic_param = param, medium_params = params,
                      new_draw = Bound_draw_thickness,
                      initial_param_value = thickness base\<rparr>, h1)
              else if params param \<noteq> None then
                (case getattr h1 (medium base) param of
                   Inl e \<Rightarrow> (Inl e, h1)
                 | Inr v \<Rightarrow>
                     (Inr \<lparr>thickness = thickness base, medium = medium base, name = name base,
                           stochastic_param = param, medium_params = params,
                           new_draw = Bound_draw_medium_parameter,
                           initial_param_value = v\<rparr>, h1))
              else (Inl (ValueError ''Unable to draw a parameter undefined in the layer''), h1)))"

text \<open>
  The state a method of a stochastic layer works on: the layer's own fields and the
  store. A method yields its outcome and the state it leaves behind.
\<close>

type_synonym state = "stochastic_layer \<times> heap"

text \<open>
  \<^verbatim>\<open>__draw_thickness\<close>. Python's built-in \<^verbatim>\<open>float()\<close> is not code of the repository
  and is taken as the parameter \<open>builtin_float\<close>: it yields the converted value or the
  exception it raises.
\<close>

fun draw_thickness ::
  "(pyval \<Rightarrow> pyerror + pyval) \<Rightarrow> pyerror + pyval \<Rightarrow> state \<Rightarrow> (pyerror + pyval) \<times> state" where
  "draw_thickness builtin_float sample (l, h) =
     (case sample of
        Inl e \<Rightarrow> (Inl e, (l, h))
      | Inr draw \<Rightarrow>
          (case builtin_float draw of
             Inl e \<Rightarrow> (Inl e, (l, h))
           | Inr x \<Rightarrow> (Inr PyNone, (l\<lparr>thickness := x\<rparr>, h))))"

text \<open>\<^verbatim>\<open>__draw_medium_parameter\<close>.\<close>

fun draw_medium_parameter :: "pyerror + pyval \<Rightarrow> state \<Rightarrow> (pyerror + pyval) \<times> state" where
  "draw_medium_parameter sample (l, h) =
     (case sample of
        Inl e \<Rightarrow> (Inl e, (l, h))
      | Inr draw \<Rightarrow>
          (case medium_params l (stochastic_param l) of
             None \<Rightarrow> (Inl (KeyError (stochastic_param l)), (l, h))
           | Some expected_type \<Rightarrow>
               if type_of draw = expected_type then
                 (Inr draw,
                  (l, setattr (setattr h (medium l) (stochastic_param l) draw)
                        (medium l) ''omega'' (PyInt (- 1))))
               else
                 (Inl (TypeError (''Draw of type '' @ class_repr (type_of draw) @
                                  '' but expected type '' @ class_repr expected_type)),
                  (l, h))))"

text \<open>The call \<^verbatim>\<open>layer.new_draw()\<close>: the method bound at construction.\<close>

fun call_new_draw ::
  "(pyval \<Rightarrow> pyerror + pyval) \<Rightarrow> pyerror + pyval \<Rightarrow> state \<Rightarrow> (pyerror + pyval) \<times> state" where
  "call_new_draw builtin_float sample (l, h) =
     (case new_draw l of
        Bound_draw_thickness \<Rightarrow> draw_thickness builtin_float sample (l, h)
      | Bound_draw_medium_parameter \<Rightarrow> draw_medium_parameter sample (l, h))"

fun reinit :: "state \<Rightarrow> (pyerror + pyval) \<times> state" where
  "reinit (l, h) =
     (if stochastic_param l = ''thickness'' then
        (Inr PyNone, (l\<lparr>thickness := initial_param_value l\<rparr>, h))
      else
        (Inr PyNone, (l, setattr h (medium l) (stochastic_param l) (initial_param_value l))))"

section \<open>Scenarios and observations\<close>

text \<open>
  The randomized quantity of a stochastic layer: its thickness, or the attribute of its
  medium that \<open>stochastic_param\<close> names (\<open>None\<close> when the medium has no such attribute).
\<close>

fun randomized_value :: "state \<Rightarrow> pyval option" where
  "randomized_value (l, h) =
     (if stochastic_param l = ''thickness'' then Some (thickness l)
      else attrs (h ! medium l) (stochastic_param l))"

text \<open>
  Python's \<^verbatim>\<open>v > 0\<close> on the numeric values. On a float's bit pattern: the sign bit
  is clear, the value is not zero and it is not a NaN.
\<close>

fun thickness_positive :: "pyval \<Rightarrow> bool" where
  "thickness_positive (PyInt i) = (0 < i)"
| "thickness_positive (PyBool b) = b"
| "thickness_positive (PyFloat w) = (0 < w \<and> w \<le> 0x7FF0000000000000)"
| "thickness_positive _ = False"

text \<open>
  A stack of layers built one after the other from the same medium object \<open>m\<close>: each
  entry gives the thickness, the name and, for a \<^verbatim>\<open>StochasticLayer\<close>, the parameter to
  randomize. The first constructor that raises ends the run with its exception.
\<close>

datatype built = Plain layer | Stochastic stochastic_layer

fun medium_of :: "built \<Rightarrow> addr" where
  "medium_of (Plain l) = medium l"
| "medium_of (Stochastic l) = medium l"

fun construct :: "heap \<Rightarrow> addr \<Rightarrow> pyval \<times> string \<times> string option \<Rightarrow> (pyerror + built) \<times> heap" where
  "construct h m (t, nm, None) =
     (case Layer_init h m t nm of
        (Inl e, h1) \<Rightarrow> (Inl e, h1)
      | (Inr l, h1) \<Rightarrow> (Inr (Plain l), h1))"
| "construct h m (t, nm, Some param) =
     (case StochasticLayer_init h m t param nm of
        (Inl e, h1) \<Rightarrow> (Inl e, h1)
      | (Inr l, h1) \<Rightarrow> (Inr (Stochastic l), h1))"

fun make_layers ::
  "heap \<Rightarrow> addr \<Rightarrow> (pyval \<times> string \<times> string option) list \<Rightarrow> (pyerror + built list) \<times> heap" where
  "make_layers h m [] = (Inr [], h)"
| "make_layers h m (c # cs) =
     (case construct h m c of
        (Inl e, h1) \<Rightarrow> (Inl e, h1)
      | (Inr b, h1) \<Rightarrow>
          (case make_layers h1 m cs of
             (Inl e, h2) \<Rightarrow> (Inl e, h2)
           | (Inr bs, h2) \<Rightarrow> (Inr (b # bs), h2)))"

text \<open>
  \<^verbatim>\<open>float()\<close> on floats, where it needs neither rounding nor parsing: the float of a
  float is that float. Nothing is said of \<^verbatim>\<open>float()\<close> on any other argument (the
  function is left unspecified there), and the examples below apply it to floats only.
\<close>

fun float_of_float :: "pyval \<Rightarrow> pyerror + pyval" where
  "float_of_float (PyFloat w) = Inr (PyFloat w)"

text \<open>
  A history of calls on one stochastic layer: each call is a \<^verbatim>\<open>new_draw()\<close>, given
  with the outcome of the sample source, or a \<^verbatim>\<open>reinit()\<close>. A call that raises
  leaves the state as the exception left it, and the history goes on.
\<close>

datatype call = Redraw "pyerror + pyval" | Reinit

fun run_calls :: "(pyval \<Rightarrow> pyerror + pyval) \<Rightarrow> call list \<Rightarrow> state \<Rightarrow> state" where
  "run_calls builtin_float [] st = st"
| "run_calls builtin_float (Redraw s # cs) st =
     run_calls builtin_float cs (snd (call_new_draw builtin_float s st))"
| "run_calls builtin_float (Reinit # cs) st = run_calls builtin_float cs (snd (reinit st))"

text \<open>
  Two stochastic layers over a copy of \<open>sample_fluid\<close>, as their constructors leave them
  in a store that held \<open>sample_fluid\<close> alone: one randomizes the density \<^verbatim>\<open>rho\<close>, the
  other the thickness (0.01 m).
\<close>

definition two_fluids :: heap where
  "two_fluids = [sample_fluid, sample_fluid]"

definition rho_layer :: stochastic_layer where
  "rho_layer =
     \<lparr>thickness = PyFloat 0x3F847AE147AE147B, medium = 1, name = ''L'',
      stochastic_param = ''rho'',
      medium_params = dict_of (EXPECTED_PARAMS sample_fluid @ OPT_PARAMS sample_fluid),
      new_draw = Bound_draw_medium_parameter,
      initial_param_value = PyFloat 0x3FF36872B020C49C\<rparr>"

definition thickness_layer :: stochastic_layer where
  "thickness_layer =
     \<lparr>thickness = PyFloat 0x3F847AE147AE147B, medium = 1, name = ''L'',
      stochastic_param = ''thickness'',
      medium_params = dict_of (EXPECTED_PARAMS sample_fluid @ OPT_PARAMS sample_fluid),
      new_draw = Bound_draw_thickness,
      initial_param_value = PyFloat 0x3F847AE147AE147B\<rparr>"

section \<open>Properties of the interface resolver\<close>

lemmas resolver_defs = generic_interface_def fluid_block_def elastic_block_def pem_block_def

lemma MODEL_samples:
  "MODEL sample_fluid = ''fluid''" "MODEL sample_elastic = ''elastic''"
  "MODEL sample_pem = ''pem''" "MODEL sample_generic = ''generic''"
  by (simp_all add: sample_fluid_def sample_elastic_def sample_pem_def sample_generic_def)

text \<open>
  Claim C1, as the code has it. Two media with the same model tag resolve to the no-op
  \<^verbatim>\<open>None\<close> for every tag but \<^verbatim>\<open>pem\<close>: fluid on fluid and elastic on elastic are
  no-ops, and so is any pair of equal tags the resolver does not know. Two poroelastic
  media are the exception: the last block raises \<^verbatim>\<open>NotImplementedError\<close> whenever the
  first medium is poroelastic.
\<close>

theorem generic_interface_same_model:
  "MODEL medium_right = MODEL medium_left \<Longrightarrow>
   generic_interface medium_right medium_left =
     (if MODEL medium_right = ''pem'' then Inl NotImplementedError else Inr None)"
  by (simp add: resolver_defs)

theorem generic_interface_same_model_witness:
  "MODEL sample_fluid = MODEL sample_fluid \<and>
   generic_interface sample_fluid sample_fluid = Inr None \<and>
   generic_interface sample_elastic sample_elastic = Inr None"
  using generic_interface_same_model [of sample_fluid sample_fluid]
    generic_interface_same_model [of sample_elastic sample_elastic]
  by (simp add: MODEL_samples)

text \<open>
  Claim C1 as stated fails for two poroelastic media: the tags are equal and the
  resolver raises instead of returning the no-op.
\<close>

theorem generic_interface_pem_pem_raises:
  "MODEL sample_pem = MODEL sample_pem \<and>
   generic_interface sample_pem sample_pem = Inl NotImplementedError \<and>
   generic_interface sample_pem sample_pem \<noteq> Inr None"
  by (simp add: resolver_defs MODEL_samples)

text \<open>
  Claim C5. The resolver is asymmetric: with a fluid first and an elastic solid second it
  returns \<^verbatim>\<open>elastic_fluid_interface\<close>, with the two media swapped it returns
  \<^verbatim>\<open>fluid_elastic_interface\<close>; both are coupling procedures (neither the no-op nor an
  error) and they are different.
\<close>

theorem generic_interface_asymmetric:
  "MODEL f = ''fluid'' \<Longrightarrow> MODEL e = ''elastic'' \<Longrightarrow>
   generic_interface f e = Inr (Some elastic_fluid_interface) \<and>
   generic_interface e f = Inr (Some fluid_elastic_interface) \<and>
   generic_interface f e \<noteq> generic_interface e f"
  by (simp add: resolver_defs)

theorem generic_interface_asymmetric_witness:
  "MODEL sample_fluid = ''fluid'' \<and> MODEL sample_elastic = ''elastic'' \<and>
   generic_interface sample_fluid sample_elastic = Inr (Some elastic_fluid_interface) \<and>
   generic_interface sample_elastic sample_fluid = Inr (Some fluid_elastic_interface) \<and>
   generic_interface sample_fluid sample_elastic \<noteq> generic_interface sample_elastic sample_fluid"
  using generic_interface_asymmetric [of sample_fluid sample_elastic]
  by (simp add: MODEL_samples)

text \<open>
  Claim C9, as the code has it. The resolver raises \<^verbatim>\<open>NotImplementedError\<close> exactly
  when the first medium is poroelastic (whatever the second is, a second poroelastic
  medium included) or the first is elastic and the second poroelastic. So every pairing
  the policy table calls unsupported raises, and of the pairings with known tags the only
  other one that raises is poroelastic on poroelastic.
\<close>

theorem generic_interface_raises_iff:
  "(generic_interface medium_right medium_left = Inl NotImplementedError \<longleftrightarrow>
      MODEL medium_right = ''pem'' \<or>
      (MODEL medium_right = ''elastic'' \<and> MODEL medium_left = ''pem'')) \<and>
   (policy_unsupported (MODEL medium_right) (MODEL medium_left) \<longrightarrow>
      generic_interface medium_right medium_left = Inl NotImplementedError) \<and>
   (generic_interface medium_right medium_left = Inl NotImplementedError \<longrightarrow>
      policy_unsupported (MODEL medium_right) (MODEL medium_left) \<or>
      (MODEL medium_right = ''pem'' \<and>
       MODEL medium_left \<noteq> ''fluid'' \<and> MODEL medium_left \<noteq> ''elastic''))"
  by (simp add: resolver_defs policy_unsupported_def)

theorem generic_interface_raises_iff_witness:
  "policy_unsupported (MODEL sample_elastic) (MODEL sample_pem) \<and>
   generic_interface sample_elastic sample_pem = Inl NotImplementedError \<and>
   policy_unsupported (MODEL sample_pem) (MODEL sample_fluid) \<and>
   generic_interface sample_pem sample_fluid = Inl NotImplementedError \<and>
   policy_unsupported (MODEL sample_pem) (MODEL sample_elastic) \<and>
   generic_interface sample_pem sample_elastic = Inl NotImplementedError"
  using generic_interface_raises_iff [of sample_elastic sample_pem]
    generic_interface_raises_iff [of sample_pem sample_fluid]
    generic_interface_raises_iff [of sample_pem sample_elastic]
  by (simp add: MODEL_samples policy_unsupported_def)

text \<open>
  Claim C9 as stated fails: poroelastic on poroelastic is not one of the table's
  unsupported pairings (the table makes it the no-op), and the resolver raises on it.
\<close>

theorem generic_interface_raises_off_table:
  "\<not> policy_unsupported (MODEL sample_pem) (MODEL sample_pem) \<and>
   generic_interface sample_pem sample_pem = Inl NotImplementedError"
  by (simp add: resolver_defs MODEL_samples policy_unsupported_def)

text \<open>
  Claim C10. When the first medium is fluid or elastic and the second medium's tag is
  none of \<^verbatim>\<open>fluid\<close>, \<^verbatim>\<open>elastic\<close>, \<^verbatim>\<open>pem\<close>, or when the first medium's tag is itself
  none of the three, no branch of the resolver returns or raises: control reaches the end
  of the function, which returns \<^verbatim>\<open>None\<close>, the value of the no-op case, and no error
  is raised.
\<close>

theorem generic_interface_unknown_falls_through:
  "((MODEL medium_right = ''fluid'' \<or> MODEL medium_right = ''elastic'') \<and>
    MODEL medium_left \<notin> {''fluid'', ''elastic'', ''pem''}) \<or>
   MODEL medium_right \<notin> {''fluid'', ''elastic'', ''pem''} \<Longrightarrow>
   fluid_block medium_right medium_left = None \<and>
   elastic_block medium_right medium_left = None \<and>
   pem_block medium_right medium_left = None \<and>
   generic_interface medium_right medium_left = Inr None"
  by (auto simp add: resolver_defs)

theorem generic_interface_unknown_falls_through_witness:
  "MODEL sample_fluid = ''fluid'' \<and>
   MODEL sample_generic \<notin> {''fluid'', ''elastic'', ''pem''} \<and>
   generic_interface sample_fluid sample_generic = Inr None \<and>
   generic_interface sample_elastic sample_generic = Inr None \<and>
   generic_interface sample_generic sample_pem = Inr None"
  using generic_interface_unknown_falls_through [of sample_fluid sample_generic]
    generic_interface_unknown_falls_through [of sample_elastic sample_generic]
    generic_interface_unknown_falls_through [of sample_generic sample_pem]
  by (simp add: MODEL_samples)

section \<open>The store and the constructors\<close>

lemma Layer_init_eq:
  "Layer_init h m t nm =
     (case kind (h ! m) of
        Atomic \<Rightarrow> (Inr \<lparr>thickness = t, medium = m, name = nm\<rparr>, h)
      | Instance \<Rightarrow> (Inr \<lparr>thickness = t, medium = length h, name = nm\<rparr>, h @ [h ! m])
      | Uncopyable e \<Rightarrow> (Inl e, h))"
  by (simp add: Layer_init_def deepcopy_def split: object_kind.splits)

lemma setattr_beyond: "\<not> a < length h \<Longrightarrow> setattr h a k v = h"
  by (simp add: setattr_def list_update_beyond)

lemma length_setattr: "length (setattr h a k v) = length h"
  by (simp add: setattr_def)

lemma nth_setattr_other: "b \<noteq> a \<Longrightarrow> setattr h a k v ! b = h ! b"
  by (simp add: setattr_def)

lemma nth_setattr_same:
  "a < length h \<Longrightarrow> setattr h a k v ! a = (h ! a)\<lparr>attrs := (attrs (h ! a))(k \<mapsto> v)\<rparr>"
  by (simp add: setattr_def)

lemma dict_of_None: "dict_of pairs k = None \<longleftrightarrow> k \<notin> fst ` set pairs"
  by (simp add: dict_of_def map_of_eq_None_iff)

lemma inj_class_repr: "class_repr t1 = class_repr t2 \<Longrightarrow> t1 = t2"
  by (cases t1; cases t2) (simp_all add: class_repr_def)

text \<open>
  What a successful construction of a stochastic layer establishes: the layer's medium
  holds what the medium given holds (it is a new object for an instance, the object
  itself for a class object), the schema dictionary is built from it, and the bound
  method and the recorded initial value follow the parameter name.
\<close>

lemma StochasticLayer_init_Inr:
  assumes "StochasticLayer_init h m t p nm = (Inr l, h1)"
  shows "h1 ! medium l = h ! m" "thickness l = t" "name l = nm"
    "stochastic_param l = p"
    "medium_params l = dict_of (EXPECTED_PARAMS (h ! m) @ OPT_PARAMS (h ! m))"
    "p = ''thickness'' \<Longrightarrow> new_draw l = Bound_draw_thickness \<and> initial_param_value l = t"
    "p \<noteq> ''thickness'' \<Longrightarrow> new_draw l = Bound_draw_medium_parameter \<and>
       medium_params l p \<noteq> None \<and> attrs (h ! m) p = Some (initial_param_value l)"
    "(kind (h ! m) = Instance \<and> medium l = length h \<and> h1 = h @ [h ! m]) \<or>
     (kind (h ! m) = Atomic \<and> medium l = m \<and> h1 = h)"
  using assms
  by (auto simp add: StochasticLayer_init_def Layer_init_eq getattr_def Let_def
      split: if_splits option.splits object_kind.splits)

lemma constructed_value:
  assumes "StochasticLayer_init h0 m t p nm = (Inr l, h1)"
  shows "randomized_value (l, h1) = Some (initial_param_value l)"
  using StochasticLayer_init_Inr(1,2,4,6,7) [OF assms] by (cases "p = ''thickness''") simp_all

lemma init_rho_layer:
  "StochasticLayer_init [sample_fluid] 0 (PyFloat 0x3F847AE147AE147B) ''rho'' ''L'' =
     (Inr rho_layer, two_fluids)"
  by (simp add: StochasticLayer_init_def Layer_init_eq getattr_def
      sample_fluid_def dict_of_def rho_layer_def two_fluids_def)

lemma init_thickness_layer:
  "StochasticLayer_init [sample_fluid] 0 (PyFloat 0x3F847AE147AE147B) ''thickness'' ''L'' =
     (Inr thickness_layer, two_fluids)"
  by (simp add: StochasticLayer_init_def Layer_init_eq
      sample_fluid_def thickness_layer_def two_fluids_def)

section \<open>What the methods change\<close>

text \<open>
  A draw and a \<^verbatim>\<open>reinit()\<close> keep the layer's configuration, allocate nothing and
  write to no medium but the layer's own.
\<close>

lemma call_new_draw_frame:
  assumes "call_new_draw f s (l, h) = (r, (l', h'))"
  shows "stochastic_param l' = stochastic_param l" "initial_param_value l' = initial_param_value l"
    "medium l' = medium l" "new_draw l' = new_draw l" "medium_params l' = medium_params l"
    "length h' = length h" "b \<noteq> medium l \<Longrightarrow> h' ! b = h ! b"
  using assms
  by (auto simp add: length_setattr nth_setattr_other
      split: bound_method.splits sum.splits option.splits if_splits)

lemma reinit_frame:
  assumes "reinit (l, h) = (r, (l', h'))"
  shows "stochastic_param l' = stochastic_param l" "initial_param_value l' = initial_param_value l"
    "medium l' = medium l" "new_draw l' = new_draw l" "medium_params l' = medium_params l"
    "length h' = length h" "b \<noteq> medium l \<Longrightarrow> h' ! b = h ! b" "r = Inr PyNone"
  using assms
  by (auto simp add: length_setattr nth_setattr_other split: if_splits)

lemma reinit_value:
  assumes "stochastic_param l = ''thickness'' \<or> medium l < length h" "reinit (l, h) = (r, st')"
  shows "randomized_value st' = Some (initial_param_value l)"
  using assms
  by (auto simp add: nth_setattr_same length_setattr split: if_splits)

text \<open>
  An address that is not allocated is never written to: the store stays as it is.
\<close>

lemma call_new_draw_dangling:
  assumes "\<not> medium l < length h" "call_new_draw f s (l, h) = (r, (l', h'))"
  shows "h' = h"
  using assms
  by (auto simp add: setattr_beyond length_setattr
      split: bound_method.splits sum.splits option.splits if_splits)

lemma reinit_dangling:
  assumes "\<not> medium l < length h" "reinit (l, h) = (r, (l', h'))"
  shows "h' = h"
  using assms by (auto simp add: setattr_beyond split: if_splits)

lemma run_calls_frame:
  assumes "run_calls f cs (l, h) = (l', h')"
  shows "stochastic_param l' = stochastic_param l \<and> initial_param_value l' = initial_param_value l \<and>
    medium l' = medium l \<and> length h' = length h"
  using assms
proof (induction cs arbitrary: l h)
  case Nil
  then show ?case by simp
next
  case (Cons c cs)
  show ?case
  proof (cases c)
    case (Redraw s)
    obtain r l1 h1 where step: "call_new_draw f s (l, h) = (r, (l1, h1))"
      by (metis surj_pair)
    with Cons.prems Redraw have "run_calls f cs (l1, h1) = (l', h')" by simp
    from Cons.IH [OF this] call_new_draw_frame [OF step] show ?thesis by simp
  next
    case Reinit
    obtain r l1 h1 where step: "reinit (l, h) = (r, (l1, h1))"
      by (metis surj_pair)
    with Cons.prems Reinit have "run_calls f cs (l1, h1) = (l', h')" by simp
    from Cons.IH [OF this] reinit_frame [OF step] show ?thesis by simp
  qed
qed

lemma run_calls_append: "run_calls f (cs @ ds) st = run_calls f ds (run_calls f cs st)"
  by (induction f cs st rule: run_calls.induct) simp_all

lemma run_calls_dangling:
  assumes "\<not> medium l < length h" "run_calls f cs (l, h) = (l', h')"
  shows "h' = h"
  using assms
proof (induction cs arbitrary: l)
  case Nil
  then show ?case by simp
next
  case (Cons c cs)
  show ?case
  proof (cases c)
    case (Redraw s)
    obtain r l1 h1 where step: "call_new_draw f s (l, h) = (r, (l1, h1))"
      by (metis surj_pair)
    from call_new_draw_dangling [OF Cons.prems(1) step] call_new_draw_frame(3) [OF step]
    have "h1 = h" "\<not> medium l1 < length h" using Cons.prems(1) by simp_all
    moreover from Cons.prems(2) Redraw step have "run_calls f cs (l1, h1) = (l', h')" by simp
    ultimately show ?thesis using Cons.IH [of l1] by simp
  next
    case Reinit
    obtain r l1 h1 where step: "reinit (l, h) = (r, (l1, h1))"
      by (metis surj_pair)
    from reinit_dangling [OF Cons.prems(1) step] reinit_frame(3) [OF step]
    have "h1 = h" "\<not> medium l1 < length h" using Cons.prems(1) by simp_all
    moreover from Cons.prems(2) Reinit step have "run_calls f cs (l1, h1) = (l', h')" by simp
    ultimately show ?thesis using Cons.IH [of l1] by simp
  qed
qed

lemma run_calls_then_reinit:
  assumes "randomized_value (l, h) = Some (initial_param_value l)"
  shows "randomized_value (run_calls f (cs @ [Reinit]) (l, h)) = Some (initial_param_value l)"
proof -
  obtain l1 h1 where mid: "run_calls f cs (l, h) = (l1, h1)"
    by (metis surj_pair)
  obtain r l2 h2 where fin: "reinit (l1, h1) = (r, (l2, h2))"
    by (metis surj_pair)
  note fr = run_calls_frame [OF mid]
  show ?thesis
  proof (cases "stochastic_param l = ''thickness'' \<or> medium l < length h")
    case True
    with fr have "stochastic_param l1 = ''thickness'' \<or> medium l1 < length h1" by simp
    from reinit_value [OF this fin] fr mid fin show ?thesis
      by (simp add: run_calls_append)
  next
    case False
    then have dang: "\<not> medium l < length h" and param: "stochastic_param l \<noteq> ''thickness''"
      by simp_all
    from run_calls_dangling [OF dang mid] have h1: "h1 = h" .
    with dang fr have "\<not> medium l1 < length h1" by simp
    from reinit_dangling [OF this fin] h1 have h2: "h2 = h" by simp
    from reinit_frame(1,3) [OF fin] fr have "stochastic_param l2 = stochastic_param l"
      "medium l2 = medium l" by simp_all
    with h2 param assms mid fin show ?thesis
      by (simp add: run_calls_append)
  qed
qed

text \<open>
  A successful draw of a medium parameter ends with \<^verbatim>\<open>self.medium.omega = -1\<close>;
  \<^verbatim>\<open>reinit()\<close> writes the parameter and nothing else, so it leaves \<^verbatim>\<open>omega\<close> as it
  finds it.
\<close>

lemma draw_medium_parameter_invalidates:
  assumes "new_draw l = Bound_draw_medium_parameter" "medium l < length h"
    and "call_new_draw builtin_float sample (l, h) = (Inr v, (l', h'))"
  shows "attrs (h' ! medium l') ''omega'' = Some (PyInt (- 1))"
  using assms
  by (auto simp add: nth_setattr_same length_setattr split: sum.splits option.splits if_splits)

lemma reinit_keeps_omega:
  assumes "stochastic_param l \<noteq> ''omega''" 
    and "reinit (l, h) = (r, (l', h'))"
  shows "attrs (h' ! medium l') ''omega'' = attrs (h ! medium l) ''omega''"
  using assms
  by (cases "medium l < length h") (auto simp add: setattr_def list_update_beyond split: if_splits)

text \<open>
  Building a stack from an instance: every constructor appends one copy of the medium
  given to the store and touches nothing that was there.
\<close>

lemma construct_Inr:
  assumes "construct h m c = (Inr b, h1)" "kind (h ! m) = Instance"
  shows "h1 = h @ [h ! m] \<and> medium_of b = length h"
proof -
  obtain t nm po where c: "c = (t, nm, po)" by (cases c)
  show ?thesis
  proof (cases po)
    case None
    with assms c show ?thesis
      by (auto simp add: Layer_init_eq)
  next
    case (Some p)
    with assms c obtain l where "StochasticLayer_init h m t p nm = (Inr l, h1)" "b = Stochastic l"
      by (auto split: prod.splits sum.splits)
    with StochasticLayer_init_Inr(8) [OF this(1)] assms(2)
    show ?thesis by simp
  qed
qed

lemma make_layers_Inr:
  assumes "make_layers h m cs = (Inr bs, h')" "m < length h" "kind (h ! m) = Instance"
  shows "length bs = length cs \<and> length h' = length h + length cs \<and>
    (\<forall>a<length h. h' ! a = h ! a) \<and>
    (\<forall>i<length bs. medium_of (bs ! i) = length h + i \<and> h' ! (length h + i) = h ! m)"
  using assms
proof (induction cs arbitrary: h bs)
  case Nil
  then show ?case by simp
next
  case (Cons c cs)
  from Cons.prems(1) obtain b h1 bs' where
    first: "construct h m c = (Inr b, h1)" and
    rest: "make_layers h1 m cs = (Inr bs', h')" and
    bs: "bs = b # bs'"
    by (auto split: prod.splits sum.splits)
  note c1 = construct_Inr [OF first Cons.prems(3)]
  from c1 Cons.prems(2) have m1: "m < length h1" by simp
  from c1 Cons.prems(2,3) have k1: "kind (h1 ! m) = Instance" by (simp add: nth_append)
  note ih = Cons.IH [OF rest m1 k1]
  from c1 have len1: "length h1 = Suc (length h)" by simp
  from c1 Cons.prems(2) have old: "\<And>a. a < length h \<Longrightarrow> h1 ! a = h ! a"
    by (simp add: nth_append)
  have new: "h1 ! length h = h ! m" using c1 by simp
  show ?case
  proof (intro conjI allI impI)
    show "length bs = length (c # cs)" using ih bs by simp
    show "length h' = length h + length (c # cs)" using ih len1 by simp
    show "h' ! a = h ! a" if "a < length h" for a
      using ih len1 old that by simp
    show "medium_of (bs ! i) = length h + i" if "i < length bs" for i
      using ih bs c1 len1 that by (cases i) simp_all
    show "h' ! (length h + i) = h ! m" if "i < length bs" for i
    proof (cases i)
      case 0
      with ih len1 new show ?thesis by simp
    next
      case (Suc k)
      with that bs have "k < length bs'" by simp
      with ih have "h' ! (length h1 + k) = h1 ! m" by simp
      with Suc len1 old Cons.prems(2) show ?thesis by simp
    qed
  qed
qed

section \<open>Properties of the layers\<close>

text \<open>
  Claim C2. Take a stochastic layer whose randomized target is a medium parameter \<open>p\<close>,
  and let \<open>expected_type\<close> be the type that the medium's schemas (required, then
  optional) declare for \<open>p\<close>. A draw whose sample has another runtime type raises a
  \<^verbatim>\<open>TypeError\<close> whose message prints the actual type and the expected type
  (different types print differently, \<open>inj_class_repr\<close>), and it
  leaves the state exactly as it found it: the store, and with it the parameter value and
  \<^verbatim>\<open>omega\<close> of the layer's medium, is unchanged, whatever store \<open>h\<close> the draw runs in.
\<close>

theorem draw_type_mismatch_raises:
  assumes "StochasticLayer_init h0 m t p nm = (Inr l, h1)"
    and "p \<noteq> ''thickness''"
    and "dict_of (EXPECTED_PARAMS (h0 ! m) @ OPT_PARAMS (h0 ! m)) p = Some expected_type"
    and "type_of draw \<noteq> expected_type"
  shows "call_new_draw builtin_float (Inr draw) (l, h) =
           (Inl (TypeError (''Draw of type '' @ class_repr (type_of draw) @
                            '' but expected type '' @ class_repr expected_type)),
            (l, h))"
  using assms StochasticLayer_init_Inr [OF assms(1)] by simp

theorem draw_type_mismatch_raises_witness:
  "StochasticLayer_init [sample_fluid] 0 (PyFloat 0x3F847AE147AE147B) ''rho'' ''L'' =
     (Inr rho_layer, two_fluids) \<and>
   ''rho'' \<noteq> ''thickness'' \<and>
   dict_of (EXPECTED_PARAMS ([sample_fluid] ! 0) @ OPT_PARAMS ([sample_fluid] ! 0)) ''rho'' =
     Some TFloat \<and>
   type_of (PyInt 2) \<noteq> TFloat \<and>
   call_new_draw float_of_float (Inr (PyInt 2)) (rho_layer, two_fluids) =
     (Inl (TypeError ''Draw of type <class 'int'> but expected type <class 'float'>''),
      (rho_layer, two_fluids))"
proof -
  have sch: "dict_of (EXPECTED_PARAMS ([sample_fluid] ! 0) @ OPT_PARAMS ([sample_fluid] ! 0)) ''rho''
      = Some TFloat"
    by (simp add: sample_fluid_def dict_of_def)
  have ne: "''rho'' \<noteq> ''thickness''" by simp
  have ty: "type_of (PyInt 2) \<noteq> TFloat" by simp
  from draw_type_mismatch_raises [OF init_rho_layer ne sch ty, of float_of_float two_fluids]
    init_rho_layer sch
  show ?thesis by (simp add: class_repr_def)
qed

text \<open>
  Claim C3, as the code has it. \<^verbatim>\<open>reinit()\<close> restores the value recorded at
  construction. So after any history of calls \<open>cs\<close> on a constructed layer, a redraw
  followed by \<^verbatim>\<open>reinit()\<close> leaves the randomized quantity (the thickness, or the
  medium parameter) at exactly the value it had at construction; that is the value before
  the draw whenever the layer was in its nominal state then, that is freshly constructed
  or last reinitialised.
\<close>

theorem reinit_restores_construction_value:
  assumes "StochasticLayer_init h0 m t p nm = (Inr l, h1)"
  shows "randomized_value (run_calls builtin_float (cs @ [Redraw s, Reinit]) (l, h1)) =
           randomized_value (l, h1) \<and>
         (cs = [] \<or> last cs = Reinit \<longrightarrow>
            randomized_value (run_calls builtin_float (cs @ [Redraw s, Reinit]) (l, h1)) =
              randomized_value (run_calls builtin_float cs (l, h1)))"
proof -
  note c = constructed_value [OF assms]
  have after: "randomized_value (run_calls builtin_float (ds @ [Reinit]) (l, h1)) =
      randomized_value (l, h1)" for ds
    using run_calls_then_reinit [OF c] c by simp
  have one: "randomized_value (run_calls builtin_float (cs @ [Redraw s, Reinit]) (l, h1)) =
      randomized_value (l, h1)"
    using after [of "cs @ [Redraw s]"] by simp
  have two: "randomized_value (run_calls builtin_float cs (l, h1)) = randomized_value (l, h1)"
    if "cs = [] \<or> last cs = Reinit"
  proof (cases "cs = []")
    case True
    then show ?thesis by simp
  next
    case False
    with that have "cs = butlast cs @ [Reinit]"
      by (metis append_butlast_last_id)
    then show ?thesis using after [of "butlast cs"] by simp
  qed
  from one two show ?thesis by simp
qed

theorem reinit_restores_construction_value_witness:
  "StochasticLayer_init [sample_fluid] 0 (PyFloat 0x3F847AE147AE147B) ''rho'' ''L'' =
     (Inr rho_layer, two_fluids) \<and>
   last [Redraw (Inr (PyFloat 0x4000000000000000)), Reinit] = Reinit \<and>
   randomized_value (rho_layer, two_fluids) = Some (PyFloat 0x3FF36872B020C49C) \<and>
   randomized_value
     (run_calls float_of_float [Redraw (Inr (PyFloat 0x4000000000000000)), Reinit]
        (rho_layer, two_fluids)) = Some (PyFloat 0x3FF36872B020C49C) \<and>
   randomized_value
     (run_calls float_of_float
        [Redraw (Inr (PyFloat 0x4000000000000000)), Reinit,
         Redraw (Inr (PyFloat 0x3FF8000000000000))]
        (rho_layer, two_fluids)) = Some (PyFloat 0x3FF8000000000000) \<and>
   randomized_value
     (run_calls float_of_float
        [Redraw (Inr (PyFloat 0x4000000000000000)), Reinit,
         Redraw (Inr (PyFloat 0x3FF8000000000000)), Reinit]
        (rho_layer, two_fluids)) = Some (PyFloat 0x3FF36872B020C49C)"
proof -
  have v0: "randomized_value (rho_layer, two_fluids) = Some (PyFloat 0x3FF36872B020C49C)"
    by (simp add: rho_layer_def two_fluids_def sample_fluid_def)
  have v1: "randomized_value
     (run_calls float_of_float
        [Redraw (Inr (PyFloat 0x4000000000000000)), Reinit,
         Redraw (Inr (PyFloat 0x3FF8000000000000))]
        (rho_layer, two_fluids)) = Some (PyFloat 0x3FF8000000000000)"
    by (simp add: rho_layer_def two_fluids_def sample_fluid_def dict_of_def setattr_def)
  let ?cs = "[Redraw (Inr (PyFloat 0x4000000000000000)), Reinit]"
  let ?s = "Inr (PyFloat 0x3FF8000000000000)"
  have nominal: "last ?cs = Reinit" by simp
  from reinit_restores_construction_value [OF init_rho_layer, of float_of_float ?cs ?s] nominal
  have a: "randomized_value (run_calls float_of_float (?cs @ [Redraw ?s, Reinit]) (rho_layer, two_fluids)) =
      randomized_value (rho_layer, two_fluids)"
    and b: "randomized_value (run_calls float_of_float (?cs @ [Redraw ?s, Reinit]) (rho_layer, two_fluids)) =
      randomized_value (run_calls float_of_float ?cs (rho_layer, two_fluids))"
    by blast+
  from a v0 have v3: "randomized_value
      (run_calls float_of_float (?cs @ [Redraw ?s, Reinit]) (rho_layer, two_fluids)) =
      Some (PyFloat 0x3FF36872B020C49C)"
    by (rule trans)
  from b [symmetric] v3 have v2: "randomized_value (run_calls float_of_float ?cs (rho_layer, two_fluids)) =
      Some (PyFloat 0x3FF36872B020C49C)"
    by (rule trans)
  have app: "?cs @ [Redraw ?s, Reinit] =
      [Redraw (Inr (PyFloat 0x4000000000000000)), Reinit, Redraw ?s, Reinit]"
    by simp
  from init_rho_layer nominal v0 v2 v1 v3 [unfolded app] show ?thesis
    by (intro conjI)
qed

text \<open>
  Claim C3 as stated fails when the layer has been redrawn before: a layer of thickness
  0.01 is redrawn to 0.02; a second redraw (to 0.03) followed by \<^verbatim>\<open>reinit()\<close> leaves
  the thickness at 0.01, which is not the value 0.02 it had before that draw.
\<close>

theorem redraw_reinit_not_pre_draw:
  "StochasticLayer_init [sample_fluid] 0 (PyFloat 0x3F847AE147AE147B) ''thickness'' ''L'' =
     (Inr thickness_layer, two_fluids) \<and>
   randomized_value
     (run_calls float_of_float [Redraw (Inr (PyFloat 0x3F947AE147AE147B))]
        (thickness_layer, two_fluids)) = Some (PyFloat 0x3F947AE147AE147B) \<and>
   randomized_value
     (run_calls float_of_float [Redraw (Inr (PyFloat 0x3F9EB851EB851EB8)), Reinit]
        (run_calls float_of_float [Redraw (Inr (PyFloat 0x3F947AE147AE147B))]
           (thickness_layer, two_fluids))) = Some (PyFloat 0x3F847AE147AE147B) \<and>
   PyFloat 0x3F847AE147AE147B \<noteq> PyFloat 0x3F947AE147AE147B"
  by (simp add: init_thickness_layer) (simp add: thickness_layer_def)

text \<open>
  Claim C4. When the parameter name is not \<^verbatim>\<open>thickness\<close> and is a key of neither the
  required nor the optional schema of the medium, the constructor raises: no layer is
  built, so no draw can ever be attempted on it. The exception is the \<^verbatim>\<open>ValueError\<close>
  of the last branch whenever \<^verbatim>\<open>copy.deepcopy\<close> accepts the medium, be it an instance
  (copied into a new object) or a class object (left where it is); on a medium that
  \<^verbatim>\<open>copy.deepcopy\<close> refuses, the constructor raises already in \<^verbatim>\<open>Layer.__init__\<close>.
\<close>

theorem unknown_param_fails_at_construction:
  assumes "p \<noteq> ''thickness''"
    and "p \<notin> fst ` set (EXPECTED_PARAMS (h ! m))"
    and "p \<notin> fst ` set (OPT_PARAMS (h ! m))"
  shows "(\<exists>e h1. StochasticLayer_init h m t p nm = (Inl e, h1)) \<and>
         (kind (h ! m) = Instance \<longrightarrow>
            StochasticLayer_init h m t p nm =
              (Inl (ValueError ''Unable to draw a parameter undefined in the layer''),
               h @ [h ! m])) \<and>
         (kind (h ! m) = Atomic \<longrightarrow>
            StochasticLayer_init h m t p nm =
              (Inl (ValueError ''Unable to draw a parameter undefined in the layer''), h)) \<and>
         (\<forall>e. kind (h ! m) = Uncopyable e \<longrightarrow>
            StochasticLayer_init h m t p nm = (Inl e, h))"
proof -
  from assms(2,3) have none: "dict_of (EXPECTED_PARAMS (h ! m) @ OPT_PARAMS (h ! m)) p = None"
    by (simp add: dict_of_None image_Un)
  show ?thesis
  proof (cases "kind (h ! m)")
    case Atomic
    with assms(1) none show ?thesis
      by (simp add: StochasticLayer_init_def Layer_init_eq)
  next
    case Instance
    with assms(1) none show ?thesis
      by (simp add: StochasticLayer_init_def Layer_init_eq)
  next
    case (Uncopyable e)
    then show ?thesis
      by (simp add: StochasticLayer_init_def Layer_init_eq)
  qed
qed

theorem unknown_param_fails_at_construction_witness:
  "''porosity'' \<noteq> ''thickness'' \<and>
   ''porosity'' \<notin> fst ` set (EXPECTED_PARAMS ([sample_fluid] ! 0)) \<and>
   ''porosity'' \<notin> fst ` set (OPT_PARAMS ([sample_fluid] ! 0)) \<and>
   kind ([sample_fluid] ! 0) = Instance \<and>
   StochasticLayer_init [sample_fluid] 0 (PyFloat 0x3F847AE147AE147B) ''porosity'' ''L'' =
     (Inl (ValueError ''Unable to draw a parameter undefined in the layer''), two_fluids) \<and>
   ''porosity'' \<notin> fst ` set (EXPECTED_PARAMS ([sample_class] ! 0)) \<and>
   ''porosity'' \<notin> fst ` set (OPT_PARAMS ([sample_class] ! 0)) \<and>
   kind ([sample_class] ! 0) = Atomic \<and>
   StochasticLayer_init [sample_class] 0 (PyFloat 0x3F847AE147AE147B) ''porosity'' ''L'' =
     (Inl (ValueError ''Unable to draw a parameter undefined in the layer''), [sample_class])"
proof -
  have a: "''porosity'' \<noteq> ''thickness''" by simp
  have b: "''porosity'' \<notin> fst ` set (EXPECTED_PARAMS ([sample_fluid] ! 0))"
    and c: "''porosity'' \<notin> fst ` set (OPT_PARAMS ([sample_fluid] ! 0))"
    and k: "kind ([sample_fluid] ! 0) = Instance"
    by (simp_all add: sample_fluid_def)
  have b': "''porosity'' \<notin> fst ` set (EXPECTED_PARAMS ([sample_class] ! 0))"
    and c': "''porosity'' \<notin> fst ` set (OPT_PARAMS ([sample_class] ! 0))"
    and k': "kind ([sample_class] ! 0) = Atomic"
    by (simp_all add: sample_class_def sample_fluid_def)
  from unknown_param_fails_at_construction [OF a b c, of "PyFloat 0x3F847AE147AE147B" "''L''"] k
  have one: "StochasticLayer_init [sample_fluid] 0 (PyFloat 0x3F847AE147AE147B) ''porosity'' ''L'' =
     (Inl (ValueError ''Unable to draw a parameter undefined in the layer''), two_fluids)"
    by (simp add: two_fluids_def)
  from unknown_param_fails_at_construction [OF a b' c', of "PyFloat 0x3F847AE147AE147B" "''L''"] k'
  have two: "StochasticLayer_init [sample_class] 0 (PyFloat 0x3F847AE147AE147B) ''porosity'' ''L'' =
     (Inl (ValueError ''Unable to draw a parameter undefined in the layer''), [sample_class])"
    by simp
  from a b c k one b' c' k' two show ?thesis by (intro conjI)
qed

text \<open>
  Claim C6, at the input where the code departs from it. A layer randomizes
  \<^verbatim>\<open>rho\<close>, 1.213 at construction. A draw of 1.5 succeeds and marks the derived state
  stale (\<^verbatim>\<open>omega = -1\<close>). The medium is then evaluated at 100 Hz, which records the
  angular frequency 628.3185307179587 in \<^verbatim>\<open>omega\<close> (the write stands for the medium's
  own frequency update, which is not among the sources). \<^verbatim>\<open>reinit()\<close> now puts
  \<^verbatim>\<open>rho\<close> back to its initial value and leaves \<^verbatim>\<open>omega\<close> at that frequency: the
  derived state computed for \<^verbatim>\<open>rho = 1.5\<close> still counts as valid.
\<close>

theorem reinit_leaves_derived_state_valid:
  "call_new_draw float_of_float (Inr (PyFloat 0x3FF8000000000000)) (rho_layer, two_fluids) =
     (Inr (PyFloat 0x3FF8000000000000),
      (rho_layer,
       setattr (setattr two_fluids 1 ''rho'' (PyFloat 0x3FF8000000000000)) 1 ''omega'' (PyInt (- 1)))) \<and>
   attrs (snd (snd (reinit (rho_layer,
            setattr (setattr two_fluids 1 ''rho'' (PyFloat 0x3FF8000000000000)) 1
              ''omega'' (PyFloat 0x4083A28C59D5433B)))) ! 1) ''rho'' =
     Some (PyFloat 0x3FF36872B020C49C) \<and>
   attrs (snd (snd (reinit (rho_layer,
            setattr (setattr two_fluids 1 ''rho'' (PyFloat 0x3FF8000000000000)) 1
              ''omega'' (PyFloat 0x4083A28C59D5433B)))) ! 1) ''omega'' =
     Some (PyFloat 0x4083A28C59D5433B) \<and>
   PyFloat 0x4083A28C59D5433B \<noteq> PyInt (- 1)"
  by (simp add: rho_layer_def two_fluids_def sample_fluid_def dict_of_def setattr_def)

text \<open>
  Claim C7, as the code has it. Layers of either class are built one after the other
  from the same medium object \<open>m\<close>, an instance, which \<^verbatim>\<open>copy.deepcopy\<close> copies. Each
  layer owns a medium object of its own, different from \<open>m\<close> and from every other
  layer's, holding a copy of \<open>m\<close>. When the medium of one layer \<open>i\<close> is then mutated, by
  an attribute write, by a stochastic draw or by \<^verbatim>\<open>reinit()\<close>, the object \<open>m\<close> and the
  medium of every other layer are still what \<open>m\<close> was.
\<close>

theorem layers_own_exclusive_copies:
  assumes "m < length h0"
    and "kind (h0 ! m) = Instance"
    and "make_layers h0 m cs = (Inr bs, h1)"
    and "i < length bs"
    and "(\<exists>k v. h2 = setattr h1 (medium_of (bs ! i)) k v) \<or>
         (\<exists>l sample r l'. bs ! i = Stochastic l \<and>
            call_new_draw builtin_float sample (l, h1) = (r, (l', h2))) \<or>
         (\<exists>l r l'. bs ! i = Stochastic l \<and> reinit (l, h1) = (r, (l', h2)))"
  shows "distinct (m # map medium_of bs) \<and>
         h1 ! m = h0 ! m \<and> (\<forall>j<length bs. h1 ! medium_of (bs ! j) = h0 ! m) \<and>
         h2 ! m = h0 ! m \<and>
         (\<forall>j<length bs. j \<noteq> i \<longrightarrow> h2 ! medium_of (bs ! j) = h0 ! m)"
proof -
  note ml = make_layers_Inr [OF assms(3,1,2)]
  have addr: "medium_of (bs ! j) = length h0 + j" if "j < length bs" for j
    using ml that by simp
  have "map medium_of bs = map (\<lambda>j. length h0 + j) [0..<length bs]"
    by (rule nth_equalityI) (simp_all add: addr)
  then have d: "distinct (m # map medium_of bs)"
    using assms(1) by (auto simp add: distinct_map inj_on_def)
  have frame: "h2 ! b = h1 ! b" if "b \<noteq> medium_of (bs ! i)" for b
    using assms(5)
  proof (elim disjE exE conjE)
    fix k v assume "h2 = setattr h1 (medium_of (bs ! i)) k v"
    with that show ?thesis by (simp add: nth_setattr_other)
  next
    fix l sample r l'
    assume "bs ! i = Stochastic l" "call_new_draw builtin_float sample (l, h1) = (r, (l', h2))"
    with that call_new_draw_frame(7) [OF this(2), of b] show ?thesis by simp
  next
    fix l r l'
    assume "bs ! i = Stochastic l" "reinit (l, h1) = (r, (l', h2))"
    with that reinit_frame(7) [OF this(2), of b] show ?thesis by simp
  qed
  have m1: "h1 ! m = h0 ! m" using ml assms(1) by simp
  have c1: "h1 ! medium_of (bs ! j) = h0 ! m" if "j < length bs" for j
    using ml that by simp
  have "m \<noteq> medium_of (bs ! i)" using addr [OF assms(4)] assms(1) by simp
  from frame [OF this] m1 have m2: "h2 ! m = h0 ! m" by simp
  have c2: "h2 ! medium_of (bs ! j) = h0 ! m" if "j < length bs" "j \<noteq> i" for j
  proof -
    from that addr [OF that(1)] addr [OF assms(4)]
    have "medium_of (bs ! j) \<noteq> medium_of (bs ! i)" by simp
    from frame [OF this] c1 [OF that(1)] show ?thesis by simp
  qed
  from d m1 c1 m2 c2 show ?thesis by simp
qed

theorem layers_own_exclusive_copies_witness:
  "kind ([sample_fluid] ! 0) = Instance \<and>
   make_layers [sample_fluid] 0
     [(PyFloat 0x3F847AE147AE147B, ''top'', None),
      (PyFloat 0x3F847AE147AE147B, ''L'', Some ''rho''),
      (PyFloat 0x3F847AE147AE147B, ''bottom'', None)] =
     (Inr [Plain \<lparr>thickness = PyFloat 0x3F847AE147AE147B, medium = 1, name = ''top''\<rparr>,
           Stochastic (rho_layer\<lparr>medium := 2\<rparr>),
           Plain \<lparr>thickness = PyFloat 0x3F847AE147AE147B, medium = 3, name = ''bottom''\<rparr>],
      [sample_fluid, sample_fluid, sample_fluid, sample_fluid]) \<and>
   call_new_draw float_of_float (Inr (PyFloat 0x3FF8000000000000))
     (rho_layer\<lparr>medium := 2\<rparr>, [sample_fluid, sample_fluid, sample_fluid, sample_fluid]) =
     (Inr (PyFloat 0x3FF8000000000000),
      (rho_layer\<lparr>medium := 2\<rparr>,
       setattr (setattr [sample_fluid, sample_fluid, sample_fluid, sample_fluid] 2 ''rho''
                  (PyFloat 0x3FF8000000000000)) 2 ''omega'' (PyInt (- 1)))) \<and>
   attrs (setattr (setattr [sample_fluid, sample_fluid, sample_fluid, sample_fluid] 2 ''rho''
                  (PyFloat 0x3FF8000000000000)) 2 ''omega'' (PyInt (- 1)) ! 2) ''rho'' =
     Some (PyFloat 0x3FF8000000000000) \<and>
   setattr (setattr [sample_fluid, sample_fluid, sample_fluid, sample_fluid] 2 ''rho''
                  (PyFloat 0x3FF8000000000000)) 2 ''omega'' (PyInt (- 1)) ! 0 = sample_fluid \<and>
   setattr (setattr [sample_fluid, sample_fluid, sample_fluid, sample_fluid] 2 ''rho''
                  (PyFloat 0x3FF8000000000000)) 2 ''omega'' (PyInt (- 1)) ! 1 = sample_fluid \<and>
   setattr (setattr [sample_fluid, sample_fluid, sample_fluid, sample_fluid] 2 ''rho''
                  (PyFloat 0x3FF8000000000000)) 2 ''omega'' (PyInt (- 1)) ! 3 = sample_fluid"
proof -
  let ?t = "PyFloat 0x3F847AE147AE147B"
  let ?bs = "[Plain \<lparr>thickness = ?t, medium = 1, name = ''top''\<rparr>,
              Stochastic (rho_layer\<lparr>medium := 2\<rparr>),
              Plain \<lparr>thickness = ?t, medium = 3, name = ''bottom''\<rparr>]"
  let ?h1 = "[sample_fluid, sample_fluid, sample_fluid, sample_fluid]"
  let ?h2 = "setattr (setattr ?h1 2 ''rho'' (PyFloat 0x3FF8000000000000)) 2 ''omega'' (PyInt (- 1))"
  have k: "kind ([sample_fluid] ! 0) = Instance"
    by (simp add: sample_fluid_def)
  have second: "StochasticLayer_init [sample_fluid, sample_fluid] 0 ?t ''rho'' ''L'' =
      (Inr (rho_layer\<lparr>medium := 2\<rparr>), [sample_fluid, sample_fluid, sample_fluid])"
    by (simp add: StochasticLayer_init_def Layer_init_eq getattr_def
        sample_fluid_def dict_of_def rho_layer_def)
  have ml: "make_layers [sample_fluid] 0
      [(?t, ''top'', None), (?t, ''L'', Some ''rho''), (?t, ''bottom'', None)] = (Inr ?bs, ?h1)"
    using k by (simp add: Layer_init_eq second)
  have dr: "call_new_draw float_of_float (Inr (PyFloat 0x3FF8000000000000))
      (rho_layer\<lparr>medium := 2\<rparr>, ?h1) =
      (Inr (PyFloat 0x3FF8000000000000), (rho_layer\<lparr>medium := 2\<rparr>, ?h2))"
    by (simp add: rho_layer_def sample_fluid_def dict_of_def)
  have val: "attrs (?h2 ! 2) ''rho'' = Some (PyFloat 0x3FF8000000000000)"
    by (simp add: setattr_def)
  have mut: "(\<exists>k v. ?h2 = setattr ?h1 (medium_of (?bs ! 1)) k v) \<or>
      (\<exists>l sample r l'. ?bs ! 1 = Stochastic l \<and>
         call_new_draw float_of_float sample (l, ?h1) = (r, (l', ?h2))) \<or>
      (\<exists>l r l'. ?bs ! 1 = Stochastic l \<and> reinit (l, ?h1) = (r, (l', ?h2)))"
    using dr by (intro disjI2 disjI1 exI [of _ "rho_layer\<lparr>medium := 2\<rparr>"] exI conjI) simp_all
  have m: "(0::nat) < length [sample_fluid]" and i: "(1::nat) < length ?bs" by simp_all
  from layers_own_exclusive_copies [OF m k ml i mut]
  have "?h2 ! 0 = sample_fluid" and others: "\<forall>j<length ?bs. j \<noteq> 1 \<longrightarrow> ?h2 ! medium_of (?bs ! j) = sample_fluid"
    by simp_all
  moreover from others [rule_format, of 0] have "?h2 ! 1 = sample_fluid" by simp
  moreover from others [rule_format, of 2] have "?h2 ! 3 = sample_fluid" by simp
  ultimately show ?thesis using k ml dr val by simp
qed

text \<open>
  Claim C7 as stated fails for a medium given as a class object, the way
  \<^verbatim>\<open>test/solver.py\<close> gives \<^verbatim>\<open>Air\<close>: \<^verbatim>\<open>copy.deepcopy\<close> returns a class object
  as it is, so a plain layer and a stochastic layer built from it both hold the class
  itself, at the one address 0, and nothing is allocated. A draw of 1.5 for \<^verbatim>\<open>rho\<close> on
  the stochastic layer then changes \<^verbatim>\<open>rho\<close> of the original object, which is also the
  medium of the plain layer, from 1.213 to 1.5.
\<close>

theorem layers_share_class_object:
  "make_layers [sample_class] 0
     [(PyFloat 0x3F847AE147AE147B, ''top'', None),
      (PyFloat 0x3F847AE147AE147B, ''L'', Some ''rho'')] =
     (Inr [Plain \<lparr>thickness = PyFloat 0x3F847AE147AE147B, medium = 0, name = ''top''\<rparr>,
           Stochastic (rho_layer\<lparr>medium := 0\<rparr>)],
      [sample_class]) \<and>
   attrs ([sample_class] ! 0) ''rho'' = Some (PyFloat 0x3FF36872B020C49C) \<and>
   call_new_draw float_of_float (Inr (PyFloat 0x3FF8000000000000))
     (rho_layer\<lparr>medium := 0\<rparr>, [sample_class]) =
     (Inr (PyFloat 0x3FF8000000000000),
      (rho_layer\<lparr>medium := 0\<rparr>,
       setattr (setattr [sample_class] 0 ''rho'' (PyFloat 0x3FF8000000000000)) 0
         ''omega'' (PyInt (- 1)))) \<and>
   attrs (setattr (setattr [sample_class] 0 ''rho'' (PyFloat 0x3FF8000000000000)) 0
            ''omega'' (PyInt (- 1)) ! 0) ''rho'' = Some (PyFloat 0x3FF8000000000000) \<and>
   PyFloat 0x3FF8000000000000 \<noteq> PyFloat 0x3FF36872B020C49C"
  by (simp add: StochasticLayer_init_def Layer_init_eq getattr_def setattr_def
      sample_class_def sample_fluid_def dict_of_def rho_layer_def)

text \<open>
  Claim C8, as the code has it. The constructor of a layer does not look at the
  thickness. Whether it succeeds is decided by \<^verbatim>\<open>copy.deepcopy\<close> on the medium alone:
  for an instance and for a class object it succeeds for every thickness, and it raises
  only what \<^verbatim>\<open>copy.deepcopy\<close> raises. A layer that is constructed holds the thickness as
  given, so its thickness is positive exactly when the argument was.
\<close>

theorem Layer_init_accepts_any_thickness:
  "(kind (h ! m) = Instance \<longrightarrow>
      Layer_init h m t nm =
        (Inr \<lparr>thickness = t, medium = length h, name = nm\<rparr>, h @ [h ! m])) \<and>
   (kind (h ! m) = Atomic \<longrightarrow>
      Layer_init h m t nm = (Inr \<lparr>thickness = t, medium = m, name = nm\<rparr>, h)) \<and>
   (\<forall>e. kind (h ! m) = Uncopyable e \<longrightarrow> Layer_init h m t nm = (Inl e, h)) \<and>
   isl (fst (Layer_init h m t nm)) = isl (fst (Layer_init h m t' nm)) \<and>
   (\<forall>l h'. Layer_init h m t nm = (Inr l, h') \<longrightarrow>
      thickness l = t \<and> thickness_positive (thickness l) = thickness_positive t)"
  by (cases "kind (h ! m)") (auto simp add: Layer_init_eq)

theorem Layer_init_accepts_any_thickness_witness:
  "kind ([sample_fluid] ! 0) = Instance \<and>
   Layer_init [sample_fluid] 0 (PyInt (- 3)) ''L'' =
     (Inr \<lparr>thickness = PyInt (- 3), medium = 1, name = ''L''\<rparr>, two_fluids) \<and>
   thickness_positive (thickness \<lparr>thickness = PyInt (- 3), medium = 1, name = ''L''\<rparr>) =
     thickness_positive (PyInt (- 3)) \<and>
   \<not> thickness_positive (PyInt (- 3)) \<and>
   kind ([sample_class] ! 0) = Atomic \<and>
   Layer_init [sample_class] 0 (PyInt (- 3)) ''L'' =
     (Inr \<lparr>thickness = PyInt (- 3), medium = 0, name = ''L''\<rparr>, [sample_class])"
proof -
  have k: "kind ([sample_fluid] ! 0) = Instance"
    by (simp add: sample_fluid_def)
  have k': "kind ([sample_class] ! 0) = Atomic"
    by (simp add: sample_class_def)
  from Layer_init_accepts_any_thickness [of "[sample_fluid]" 0 "PyInt (- 3)" "''L''" "PyInt 1"] k
  have one: "Layer_init [sample_fluid] 0 (PyInt (- 3)) ''L'' =
     (Inr \<lparr>thickness = PyInt (- 3), medium = 1, name = ''L''\<rparr>, two_fluids)"
    by (simp add: two_fluids_def)
  from Layer_init_accepts_any_thickness [of "[sample_fluid]" 0 "PyInt (- 3)" "''L''" "PyInt 1"] one
  have pos: "thickness_positive (thickness \<lparr>thickness = PyInt (- 3), medium = 1, name = ''L''\<rparr>) =
     thickness_positive (PyInt (- 3))"
    by blast
  from Layer_init_accepts_any_thickness [of "[sample_class]" 0 "PyInt (- 3)" "''L''" "PyInt 1"] k'
  have two: "Layer_init [sample_class] 0 (PyInt (- 3)) ''L'' =
     (Inr \<lparr>thickness = PyInt (- 3), medium = 0, name = ''L''\<rparr>, [sample_class])"
    by simp
  have neg: "\<not> thickness_positive (PyInt (- 3))" by simp
  from k one pos neg k' two show ?thesis by (intro conjI)
qed

text \<open>
  Claim C8 as stated fails: a layer is constructed with thickness -1.0, and one with
  thickness 0.0.
\<close>

theorem Layer_init_nonpositive_thickness:
  "\<not> thickness_positive (PyFloat 0xBFF0000000000000) \<and>
   \<not> thickness_positive (PyFloat 0) \<and>
   Layer_init [sample_fluid] 0 (PyFloat 0xBFF0000000000000) ''L'' =
     (Inr \<lparr>thickness = PyFloat 0xBFF0000000000000, medium = 1, name = ''L''\<rparr>, two_fluids) \<and>
   Layer_init [sample_fluid] 0 (PyFloat 0) ''L'' =
     (Inr \<lparr>thickness = PyFloat 0, medium = 1, name = ''L''\<rparr>, two_fluids)"
  by (simp add: Layer_init_eq two_fluids_def sample_fluid_def)

end
